theory Spec2Isabelle
  imports Complex_Main "HOL-Library.Sublist"
begin

section \<open>JavaScript values\<close>

text \<open>
  A JavaScript number is an IEEE double. The model keeps the three non-finite values
  apart and takes a finite double as the rational it denotes; the two zeros are one.
\<close>

datatype jsnum = NaN | NegInf | Fin rat | PosInf









text \<open>
  The values \<open>response.json()\<close> can produce. A record of the sample is an object; the
  model keeps its own properties as an association list in the order \<open>Object.entries\<close>
  enumerates them.
\<close>

datatype jvalue =
    JNull
  | JBool bool
  | JNum jsnum
  | JStr string
  | JArr "jvalue list"
  | JObj "(string \<times> jvalue) list"

type_synonym jrecord = "(string \<times> jvalue) list"

text \<open>
  The property read \<open>record[key]\<close> follows the prototype chain: it yields the record's
  own property when there is one, else the member of \<open>Object.prototype\<close> of that name
  (\<open>constructor\<close>, \<open>toString\<close>, and so on) when there is one, else \<open>undefined\<close>. Which
  names \<open>Object.prototype\<close> has is the parameter \<open>inherited\<close>. An inherited member is a
  function or an object, never a string, a number or \<open>null\<close>: where the code only asks
  whether the value read is a string or a number, the read is modelled by \<open>map_of\<close>
  (\<open>None\<close> is then any value that is no own property).
\<close>

datatype property = Undefined | Own jvalue | Inherited string

definition js_get :: "(string \<Rightarrow> bool) \<Rightarrow> jrecord \<Rightarrow> string \<Rightarrow> property" where
  "js_get inherited record key =
     (case map_of record key of
        Some v \<Rightarrow> Own v
      | None \<Rightarrow> if inherited key then Inherited key else Undefined)"

section \<open>The data model of \<open>connection-wizard.tsx\<close>\<close>

record NumericSummary =
  mean :: "jsnum option"
  minimum :: "jsnum option"
  maximum :: "jsnum option"

record VisualizationArtifact =
  column :: string
  chart_type :: string
  title :: string
  image_base64 :: string
  description :: "string option"

record SchemaDetail =
  sd_column :: string
  dtype :: string
  non_null :: jsnum
  null_count :: jsnum

record IngestionSummary =
  record_count :: "jsnum option"
  schema_fields :: "string list"
  sample_records :: "jrecord list"
  numeric_summary :: "(string \<times> NumericSummary) list"
  schema_details :: "SchemaDetail list"
  categorical_summary :: "(string \<times> (string \<times> jsnum) list) list"
  descriptive_stats :: "(string \<times> (string \<times> jsnum option) list) list"
  numeric_histograms :: "(string \<times> (string \<times> jsnum) list) list"
  visualizations :: "VisualizationArtifact list option"

datatype job_status = Pending | Running | Completed | Failed

record IngestionJobResponse =
  job_id :: string
  connection_id :: string
  status :: job_status
  created_at :: string
  started_at :: "string option"
  finished_at :: "string option"
  message :: "string option"
  errors :: "string list"
  summary :: "IngestionSummary option"

record ConnectionResponse =
  conn_id :: string
  portal_name :: string
  dataset_id :: string
  last_ingested_at :: "string option"
  last_ingestion_summary :: "IngestionSummary option"

section \<open>The ingestion handlers of the connection wizard\<close>

text \<open>
  The handlers are asynchronous functions that set React state and call \<open>fetch\<close>,
  \<open>setTimeout\<close> and the \<open>onJobCompleted\<close> callback. The model passes the state they
  set explicitly and appends every outside effect, in program order, to the field
  \<open>effects\<close>.
\<close>

datatype http_method = GET | POST

record http_request =
  req_method :: http_method
  req_url :: string
  req_headers :: "(string \<times> string) list"
  req_body :: "string option"

datatype effect =
    Delay nat
  | Fetch http_request
  | JobCompleted string IngestionJobResponse

datatype ingest_state =
  Idle | Starting | Polling | IngestCompleted | IngestFailed | Timeout

record wizard_state =
  connectionId :: "string option"
  jobStatus :: "IngestionJobResponse option"
  ingestState :: ingest_state
  ingestError :: "string option"
  effects :: "effect list"

text \<open>
  What one status request comes to: \<open>fetch\<close>, \<open>response.json()\<close> or the read of
  \<open>data.status\<close> throws, the response is not \<open>ok\<close>, or the response is \<open>ok\<close> and carries
  a job snapshot.
\<close>

datatype poll_result = PollThrows | PollNotOk | PollOk IngestionJobResponse

definition status_url :: "string \<Rightarrow> string \<Rightarrow> string \<Rightarrow> string" where
  "status_url base cid jid = base @ ''/connections/'' @ cid @ ''/ingest/'' @ jid"

definition status_request :: "string \<Rightarrow> string \<Rightarrow> string \<Rightarrow> http_request" where
  "status_request base cid jid =
     \<lparr>req_method = GET, req_url = status_url base cid jid, req_headers = [], req_body = None\<rparr>"

definition emit :: "effect \<Rightarrow> wizard_state \<Rightarrow> wizard_state" where
  "emit e st = st\<lparr>effects := effects st @ [e]\<rparr>"

text \<open>
  \<open>onJobCompleted?.(connectionId, data)\<close>: the callback is an optional property, \<open>None\<close>
  when it was not passed. The call is recorded; of what the callback does, the model
  keeps whether it returns or throws. The call stands inside the \<open>try\<close> of the loop, so
  an exception it throws is caught by the \<open>catch\<close> of the loop like any other.
\<close>

datatype callback_result = Returned | Thrown

type_synonym callback = "(string \<Rightarrow> IngestionJobResponse \<Rightarrow> callback_result) option"

definition notify :: "callback \<Rightarrow> string \<Rightarrow> IngestionJobResponse \<Rightarrow> wizard_state \<Rightarrow> wizard_state" where
  "notify cb cid job st =
     (case cb of
        None \<Rightarrow> st
      | Some f \<Rightarrow>
          (let st1 = emit (JobCompleted cid job) st in
           case f cid job of
             Returned \<Rightarrow> st1
           | Thrown \<Rightarrow>
               st1\<lparr>ingestError := Some ''Error while checking ingestion status.'',
                   ingestState := IngestFailed\<rparr>))"

text \<open>
  The \<open>for\<close> loop of \<open>pollJobStatus\<close>, from the value \<open>attempt\<close> of its counter on.
  \<open>server k\<close> is what the request of attempt \<open>k\<close> comes to.
\<close>

function poll_loop ::
  "string \<Rightarrow> callback \<Rightarrow> (nat \<Rightarrow> poll_result) \<Rightarrow> string \<Rightarrow> string \<Rightarrow> nat \<Rightarrow> wizard_state \<Rightarrow> wizard_state"
where
  "poll_loop base cb server cid jid attempt st =
     (if attempt < 12 then
        (let st1 = emit (Fetch (status_request base cid jid)) (emit (Delay 750) st) in
         case server attempt of
           PollThrows \<Rightarrow>
             st1\<lparr>ingestError := Some ''Error while checking ingestion status.'',
                 ingestState := IngestFailed\<rparr>
         | PollNotOk \<Rightarrow>
             st1\<lparr>ingestError := Some ''Unable to check ingestion status.'',
                 ingestState := IngestFailed\<rparr>
         | PollOk data \<Rightarrow>
             (let st2 = st1\<lparr>jobStatus := Some data\<rparr> in
              if status data = Completed then
                notify cb cid data (st2\<lparr>ingestState := IngestCompleted\<rparr>)
              else if status data = Failed then
                notify cb cid data
                  (st2\<lparr>ingestError :=
                          Some (case message data of Some m \<Rightarrow> m
                                | None \<Rightarrow> ''Data ingestion failed.''),
                       ingestState := IngestFailed\<rparr>)
              else poll_loop base cb server cid jid (attempt + 1) st2))
      else
        st\<lparr>ingestError := Some ''Ingestion did not finish in the expected time.'',
           ingestState := Timeout\<rparr>)"
  by pat_completeness auto
termination
  by (relation "measure (\<lambda>(base, cb, server, cid, jid, attempt, st). 12 - attempt)") auto

definition pollJobStatus ::
  "string \<Rightarrow> callback \<Rightarrow> (nat \<Rightarrow> poll_result) \<Rightarrow> string \<Rightarrow> string \<Rightarrow> wizard_state \<Rightarrow> wizard_state"
where
  "pollJobStatus base cb server cid jid st =
     poll_loop base cb server cid jid 0 (st\<lparr>ingestState := Polling\<rparr>)"

text \<open>
  \<open>handleIngestion\<close>. What the start request comes to: \<open>fetch\<close> (or \<open>json()\<close> of an
  \<open>ok\<close> response, or the read of \<open>job.job_id\<close>) throws, with the message of the \<open>Error\<close>
  thrown if it is one; the
  response is not \<open>ok\<close>, with the \<open>detail\<close> of its body if it has one; or the response is
  \<open>ok\<close> and carries the job created.
\<close>

datatype start_result =
    StartThrows "string option"
  | StartNotOk "string option"
  | StartOk IngestionJobResponse

definition ingest_url :: "string \<Rightarrow> string \<Rightarrow> string" where
  "ingest_url base cid = base @ ''/connections/'' @ cid @ ''/ingest''"

text \<open>\<open>JSON.stringify({ force_refresh: false })\<close>; \<open>CHR 0x22\<close> is the double quote.\<close>

definition force_refresh_body :: string where
  "force_refresh_body = ''{'' @ [CHR 0x22] @ ''force_refresh'' @ [CHR 0x22] @ '':false}''"

definition ingest_request :: "string \<Rightarrow> string \<Rightarrow> http_request" where
  "ingest_request base cid =
     \<lparr>req_method = POST, req_url = ingest_url base cid,
      req_headers = [(''Content-Type'', ''application/json'')],
      req_body = Some force_refresh_body\<rparr>"

definition save_first :: "wizard_state \<Rightarrow> wizard_state" where
  "save_first st =
     st\<lparr>ingestError := Some ''Save the connection before running ingestion.'',
        ingestState := IngestFailed\<rparr>"

text \<open>\<open>!connectionId\<close> holds of \<open>null\<close> and of the empty string.\<close>

definition handleIngestion ::
  "string \<Rightarrow> callback \<Rightarrow> start_result \<Rightarrow> (nat \<Rightarrow> poll_result) \<Rightarrow> wizard_state \<Rightarrow> wizard_state"
where
  "handleIngestion base cb start server st =
     (case connectionId st of
        None \<Rightarrow> save_first st
      | Some cid \<Rightarrow>
          if cid = [] then save_first st
          else
            (let st1 = st\<lparr>ingestState := Starting, ingestError := None\<rparr>;
                 st2 = emit (Fetch (ingest_request base cid)) st1 in
             case start of
               StartThrows m \<Rightarrow>
                 st2\<lparr>ingestError :=
                       Some (case m of Some t \<Rightarrow> t
                             | None \<Rightarrow> ''An error occurred while ingesting data.''),
                     ingestState := IngestFailed\<rparr>
             | StartNotOk d \<Rightarrow>
                 st2\<lparr>ingestError :=
                       Some (case d of Some t \<Rightarrow> t
                             | None \<Rightarrow> ''Failed to start data ingestion.''),
                     ingestState := IngestFailed\<rparr>
             | StartOk job \<Rightarrow>
                 pollJobStatus base cb server cid (job_id job) (st2\<lparr>jobStatus := Some job\<rparr>)))"

text \<open>The requests among a sequence of effects, in order.\<close>

fun requests :: "effect list \<Rightarrow> http_request list" where
  "requests [] = []"
| "requests (Fetch r # es) = r # requests es"
| "requests (_ # es) = requests es"

text \<open>One round of the polling loop: the delay, then the status request.\<close>

definition poll_round :: "string \<Rightarrow> string \<Rightarrow> string \<Rightarrow> effect list" where
  "poll_round base cid jid = [Delay 750, Fetch (status_request base cid jid)]"

text \<open>A status request that succeeds with a snapshot that is not terminal.\<close>

definition in_progress :: "poll_result \<Rightarrow> bool" where
  "in_progress r =
     (case r of PollOk j \<Rightarrow> status j \<noteq> Completed \<and> status j \<noteq> Failed | _ \<Rightarrow> False)"

text \<open>\<open>data.message ?? "Data ingestion failed."\<close>\<close>

definition failure_text :: "IngestionJobResponse \<Rightarrow> string" where
  "failure_text job = (case message job of Some m \<Rightarrow> m | None \<Rightarrow> ''Data ingestion failed.'')"

text \<open>Whether the callback is there and throws on these arguments, and the call it receives.\<close>

definition callback_throws :: "callback \<Rightarrow> string \<Rightarrow> IngestionJobResponse \<Rightarrow> bool" where
  "callback_throws cb cid job = (case cb of None \<Rightarrow> False | Some f \<Rightarrow> f cid job = Thrown)"

definition callback_calls :: "callback \<Rightarrow> string \<Rightarrow> IngestionJobResponse \<Rightarrow> effect list" where
  "callback_calls cb cid job = (case cb of None \<Rightarrow> [] | Some f \<Rightarrow> [JobCompleted cid job])"

text \<open>Concrete inputs: a server that answers from a script, a job and a wizard state.\<close>

definition scripted :: "poll_result list \<Rightarrow> nat \<Rightarrow> poll_result" where
  "scripted rs k = (if k < length rs then rs ! k else PollThrows)"

definition sample_job :: "job_status \<Rightarrow> string option \<Rightarrow> IngestionSummary option \<Rightarrow> IngestionJobResponse" where
  "sample_job s m sm =
     \<lparr>job_id = ''j1'', connection_id = ''c1'', status = s,
      created_at = ''2024-01-01T00:00:00Z'', started_at = None, finished_at = None,
      message = m, errors = [], summary = sm\<rparr>"

definition fresh_wizard :: "string option \<Rightarrow> wizard_state" where
  "fresh_wizard c =
     \<lparr>connectionId = c, jobStatus = None, ingestState = Idle, ingestError = None, effects = []\<rparr>"

definition local_api :: string where
  "local_api = ''http://localhost:8000''"

definition returning_callback :: callback where
  "returning_callback = Some (\<lambda>cid job. Returned)"

definition throwing_callback :: callback where
  "throwing_callback = Some (\<lambda>cid job. Thrown)"

section \<open>The job state machine\<close>

text \<open>
  Modelled from the spec: the Job Orchestrator, the server-side owner of a job's status
  (sections 3 and 4.5), is not among the sources; only the client that polls it is. An
  event is one of the three transitions the spec lists, with the time it happens and
  what it records.
\<close>

datatype orchestrator_event =
    Pickup string
  | Succeed string IngestionSummary
  | Fail string string

text \<open>
  Modelled from the spec: the transitions of section 4.5. \<open>pending \<rightarrow> running\<close> on worker
  pickup sets \<open>started_at\<close>; \<open>running \<rightarrow> completed\<close> populates \<open>summary\<close> and sets
  \<open>finished_at\<close>; \<open>running \<rightarrow> failed\<close> populates \<open>message\<close> and \<open>errors\<close> and sets
  \<open>finished_at\<close>, the summary staying unset. No other transition exists: \<open>None\<close>.
\<close>

fun transition :: "IngestionJobResponse \<Rightarrow> orchestrator_event \<Rightarrow> IngestionJobResponse option" where
  "transition j (Pickup t) =
     (if status j = Pending then Some (j\<lparr>status := Running, started_at := Some t\<rparr>) else None)"
| "transition j (Succeed t sm) =
     (if status j = Running
      then Some (j\<lparr>status := Completed, finished_at := Some t, summary := Some sm\<rparr>)
      else None)"
| "transition j (Fail t m) =
     (if status j = Running
      then Some (j\<lparr>status := Failed, finished_at := Some t, message := Some m,
                   errors := errors j @ [m]\<rparr>)
      else None)"

text \<open>
  Modelled from the spec: a job is created pending when an ingestion request arrives
  (section 3), with nothing else set.
\<close>

definition new_job :: "string \<Rightarrow> string \<Rightarrow> string \<Rightarrow> IngestionJobResponse" where
  "new_job jid cid t =
     \<lparr>job_id = jid, connection_id = cid, status = Pending, created_at = t,
      started_at = None, finished_at = None, message = None, errors = [], summary = None\<rparr>"

text \<open>
  Modelled from the spec: the snapshots a job goes through under a sequence of events,
  the first being the job itself; \<open>None\<close> when some event is not a transition of the
  state the job is in. A poller observes snapshots of this sequence, in its order.
\<close>

fun history :: "IngestionJobResponse \<Rightarrow> orchestrator_event list \<Rightarrow> IngestionJobResponse list option" where
  "history j [] = Some [j]"
| "history j (e # es) =
     (case transition j e of
        None \<Rightarrow> None
      | Some j' \<Rightarrow> (case history j' es of None \<Rightarrow> None | Some js \<Rightarrow> Some (j # js)))"

section \<open>The dashboard: \<open>summarizeNumeric\<close> and \<open>buildSampleRows\<close>\<close>

record NumericDisplay =
  field :: string
  nd_mean :: "jsnum option"
  nd_minimum :: "jsnum option"
  nd_maximum :: "jsnum option"
  meanPercent :: "jsnum option"




text \<open>
  What the sample table needs of the runtime: the names of \<open>Object.prototype\<close>, and the
  builtin \<open>String\<close> on a value of the sample and on the member of \<open>Object.prototype\<close> of
  a given name.
\<close>

record object_env =
  inherited :: "string \<Rightarrow> bool"
  String_value :: "jvalue \<Rightarrow> string"
  String_inherited :: "string \<Rightarrow> string"

text \<open>
  One cell of the sample table, from the value \<open>record[header]\<close>. The values of a
  sample record come from \<open>response.json()\<close>, which builds no \<open>Date\<close>, and no member of
  \<open>Object.prototype\<close> is one: the \<open>instanceof Date\<close> branch is never taken.
\<close>

definition sample_cell :: "object_env \<Rightarrow> property \<Rightarrow> string" where
  "sample_cell oe v =
     (case v of
        Undefined \<Rightarrow> ''-''
      | Own JNull \<Rightarrow> ''-''
      | Own x \<Rightarrow> String_value oe x
      | Inherited k \<Rightarrow> String_inherited oe k)"

record sample_table =
  headers :: "string list"
  rows :: "string list list"

definition buildSampleRows :: "object_env \<Rightarrow> IngestionSummary option \<Rightarrow> sample_table" where
  "buildSampleRows oe summ =
     (case summ of
        None \<Rightarrow> \<lparr>headers = [], rows = []\<rparr>
      | Some s \<Rightarrow>
          (case sample_records s of
             [] \<Rightarrow> \<lparr>headers = [], rows = []\<rparr>
           | first # _ \<Rightarrow>
               (let hs = map fst first in
                \<lparr>headers = hs,
                 rows = map (\<lambda>record.
                              map (\<lambda>header. sample_cell oe (js_get (inherited oe) record header)) hs)
                          (take 5 (sample_records s))\<rparr>)))"

section \<open>The saved connection and the history modal\<close>

text \<open>
  \<open>filterConnections\<close>. \<open>trim\<close> and \<open>lower\<close> are the builtins \<open>String.prototype.trim\<close>
  and \<open>toLowerCase\<close>; \<open>includes\<close> is \<open>sublist\<close>, the test for a contiguous occurrence.
\<close>

definition filterConnections ::
  "(string \<Rightarrow> string) \<Rightarrow> (string \<Rightarrow> string) \<Rightarrow> ConnectionResponse list \<Rightarrow> string \<Rightarrow> ConnectionResponse list"
where
  "filterConnections trim lower connections filterText =
     (if trim filterText = [] then connections
      else
        (let keyword = lower filterText in
         filter (\<lambda>connection.
                   sublist keyword (lower (portal_name connection)) \<or>
                   sublist keyword (lower (dataset_id connection)))
           connections))"

text \<open>What the modal shows; \<open>None\<close> when it is not open (\<open>Modal\<close> returns \<open>null\<close>).\<close>

datatype history_view =
    NoPrevious
  | NoMatching
  | HistoryList "ConnectionResponse list"

definition HistoryModal ::
  "(string \<Rightarrow> string) \<Rightarrow> (string \<Rightarrow> string) \<Rightarrow> bool \<Rightarrow> ConnectionResponse list \<Rightarrow> string \<Rightarrow> history_view option"
where
  "HistoryModal trim lower opened connections filterText =
     (let filtered = filterConnections trim lower (drop 1 connections) filterText in
      if \<not> opened then None
      else if length connections \<le> 1 then Some NoPrevious
      else if length filtered = 0 then Some NoMatching
      else Some (HistoryList filtered))"

text \<open>The list under the heading of the dashboard's saved connection.\<close>

datatype saved_view = NoSaved | SavedList "ConnectionResponse list"

definition saved_connections :: "ConnectionResponse list \<Rightarrow> saved_view" where
  "saved_connections connections =
     (case connections of [] \<Rightarrow> NoSaved | c # _ \<Rightarrow> SavedList [c])"

definition history_entries :: "history_view option \<Rightarrow> ConnectionResponse list" where
  "history_entries v = (case v of Some (HistoryList cs) \<Rightarrow> cs | _ \<Rightarrow> [])"

definition saved_entries :: "saved_view \<Rightarrow> ConnectionResponse list" where
  "saved_entries v = (case v of SavedList cs \<Rightarrow> cs | NoSaved \<Rightarrow> [])"

text \<open>A summary with nothing in it, to build concrete summaries from.\<close>

definition empty_summary :: IngestionSummary where
  "empty_summary =
     \<lparr>record_count = None, schema_fields = [], sample_records = [], numeric_summary = [],
      schema_details = [], categorical_summary = [], descriptive_stats = [],
      numeric_histograms = [], visualizations = None\<rparr>"


text \<open>A concrete runtime for the sample table, with two of the names of \<open>Object.prototype\<close>.\<close>

definition sample_object_env :: object_env where
  "sample_object_env =
     \<lparr>inherited = (\<lambda>k. k = ''constructor'' \<or> k = ''toString''),
      String_value = (\<lambda>v. case v of JStr t \<Rightarrow> t | _ \<Rightarrow> ''?''),
      String_inherited = (\<lambda>k. ''function'')\<rparr>"

text \<open>Concrete builtins for strings of ASCII letters and spaces, and a connection.\<close>

definition ascii_lower :: "string \<Rightarrow> string" where
  "ascii_lower s =
     map (\<lambda>c. case map_of (zip ''ABCDEFGHIJKLMNOPQRSTUVWXYZ'' ''abcdefghijklmnopqrstuvwxyz'') c of
                Some l \<Rightarrow> l | None \<Rightarrow> c) s"

definition ascii_trim :: "string \<Rightarrow> string" where
  "ascii_trim s = rev (dropWhile (\<lambda>c. c = CHR '' '') (rev (dropWhile (\<lambda>c. c = CHR '' '') s)))"

definition sample_connection :: "string \<Rightarrow> string \<Rightarrow> string \<Rightarrow> ConnectionResponse" where
  "sample_connection i p d =
     \<lparr>conn_id = i, portal_name = p, dataset_id = d, last_ingested_at = None,
      last_ingestion_summary = None\<rparr>"

section \<open>Chart presets: \<open>visualization-presets.ts\<close>\<close>

text \<open>
  The builtins the chart code calls on values of the sample: \<open>Date.parse\<close> (\<open>None\<close> is
  \<open>NaN\<close>, a result is a time in milliseconds), \<open>Number\<close> on a string, and
  \<open>Date.prototype.toLocaleString\<close>.
\<close>

record js_builtins =
  Date_parse :: "string \<Rightarrow> int option"
  to_Number :: "string \<Rightarrow> jsnum"
  toLocaleString :: "int \<Rightarrow> string"

datatype VisualizationPresetType = NumericPreset | CategoricalPreset | TimeseriesPreset

record VisualizationPreset =
  preset_id :: string
  preset_label :: string
  preset_description :: string
  preset_fields :: "string list"
  preset_type :: VisualizationPresetType

text \<open>\<open>Array.prototype.join\<close> on strings.\<close>

fun join :: "string \<Rightarrow> string list \<Rightarrow> string" where
  "join sep [] = []"
| "join sep [x] = x"
| "join sep (x # y # ys) = x @ sep @ join sep (y # ys)"

definition createNumericPreset :: "string \<Rightarrow> NumericSummary \<Rightarrow> VisualizationPreset" where
  "createNumericPreset fld stats =
     \<lparr>preset_id = ''numeric-'' @ fld, preset_label = fld @ '' distribution'',
      preset_description = ''Visualize the numeric distribution using histogram or line chart.'',
      preset_fields = [fld], preset_type = NumericPreset\<rparr>"

definition createCategoricalPreset :: "string list \<Rightarrow> VisualizationPreset" where
  "createCategoricalPreset flds =
     \<lparr>preset_id = ''categorical-'' @ join ''-'' flds, preset_label = ''Category frequency'',
      preset_description = ''Create a bar chart showing the most common categorical values.'',
      preset_fields = flds, preset_type = CategoricalPreset\<rparr>"

definition createTimeSeriesPreset :: "string \<Rightarrow> VisualizationPreset" where
  "createTimeSeriesPreset fld =
     \<lparr>preset_id = ''timeseries-'' @ fld, preset_label = fld @ '' time series'',
      preset_description = ''Plot the time-based trend for the selected field.'',
      preset_fields = [fld], preset_type = TimeseriesPreset\<rparr>"

definition isLikelyTimestamp :: "js_builtins \<Rightarrow> jvalue \<Rightarrow> bool" where
  "isLikelyTimestamp env v = (case v of JStr t \<Rightarrow> Date_parse env t \<noteq> None | _ \<Rightarrow> False)"

definition is_string :: "jvalue \<Rightarrow> bool" where
  "is_string v = (case v of JStr t \<Rightarrow> True | _ \<Rightarrow> False)"

definition collectTimestampFields :: "js_builtins \<Rightarrow> IngestionSummary \<Rightarrow> string list" where
  "collectTimestampFields env s =
     (case sample_records s of
        [] \<Rightarrow> []
      | record # _ \<Rightarrow> map fst (filter (\<lambda>kv. isLikelyTimestamp env (snd kv)) record))"

definition collectCategoricalFields :: "js_builtins \<Rightarrow> IngestionSummary \<Rightarrow> string list" where
  "collectCategoricalFields env s =
     (case sample_records s of
        [] \<Rightarrow> []
      | record # _ \<Rightarrow>
          map fst (filter (\<lambda>kv. is_string (snd kv) \<and> \<not> isLikelyTimestamp env (snd kv)) record))"

definition recommendPresets :: "js_builtins \<Rightarrow> IngestionSummary option \<Rightarrow> VisualizationPreset list" where
  "recommendPresets env summ =
     (case summ of
        None \<Rightarrow> []
      | Some s \<Rightarrow>
          (let numeric = map (\<lambda>kv. createNumericPreset (fst kv) (snd kv)) (numeric_summary s);
               categorical = take 2 (collectCategoricalFields env s);
               temporal = collectTimestampFields env s in
           numeric @
           (if length categorical > 0 then [createCategoricalPreset categorical] else []) @
           map createTimeSeriesPreset temporal))"

section \<open>Chart previews: \<open>visualization-preview.tsx\<close>\<close>

text \<open>
  A point of the time-series chart is the object \<open>{ date, ...numericValues }\<close>:
  \<open>point_date\<close> is the date parsed from the preset's field and \<open>point_values\<close> are the
  numeric properties of the record, in its order. The spread comes after \<open>date\<close>, so a
  numeric property of the record that is itself named \<open>date\<close> replaces the \<open>Date\<close>
  object: the property \<open>date\<close> of the point is then a number.
\<close>

record ts_point =
  point_date :: int
  point_values :: "(string \<times> jsnum) list"

definition date_is_number :: "ts_point \<Rightarrow> bool" where
  "date_is_number p = (map_of (point_values p) ''date'' \<noteq> None)"

text \<open>
  \<open>isNumeric(item[key])\<close> on a point after \<open>dateLabel\<close>, a string, was added to it. For
  the key \<open>date\<close> it holds exactly when the date was replaced by a number.
\<close>

definition point_numeric :: "ts_point \<Rightarrow> string \<Rightarrow> bool" where
  "point_numeric p key = (key \<noteq> ''dateLabel'' \<and> map_of (point_values p) key \<noteq> None)"

datatype chart =
    LineOfValues "(nat \<times> jsnum) list"
  | PieOfCounts "(string \<times> nat) list"
  | BarOfCounts "(string \<times> nat) list"
  | LineOverTime "(ts_point \<times> string) list" "string list"

datatype js_error = TypeError

text \<open>
  The numeric branch: \<open>typeof raw === "string" ? Number(raw) : raw\<close>, kept when it is a
  number other than \<open>NaN\<close>.
\<close>

definition numeric_value :: "js_builtins \<Rightarrow> jvalue option \<Rightarrow> jsnum option" where
  "numeric_value env raw =
     (let v = (case raw of Some (JStr t) \<Rightarrow> Some (JNum (to_Number env t)) | _ \<Rightarrow> raw) in
      case v of Some (JNum n) \<Rightarrow> (if n = NaN then None else Some n) | _ \<Rightarrow> None)"

definition numeric_data :: "js_builtins \<Rightarrow> string \<Rightarrow> jrecord list \<Rightarrow> (nat \<times> jsnum) list" where
  "numeric_data env fld records =
     List.map_filter
       (\<lambda>ir. case numeric_value env (map_of (snd ir) fld) of
                None \<Rightarrow> None | Some n \<Rightarrow> Some (fst ir, n))
       (enumerate 0 records)"

definition numeric_chart :: "js_builtins \<Rightarrow> IngestionSummary \<Rightarrow> string \<Rightarrow> chart option" where
  "numeric_chart env s fld =
     (let data = numeric_data env fld (sample_records s) in
      if length data < 2 then None else Some (LineOfValues data))"

text \<open>The categorical branch. The separator is a middle dot (UTF-8) between spaces.\<close>

definition middle_dot :: string where
  "middle_dot = '' '' @ [CHR 0xC2, CHR 0xB7] @ '' ''"

fun string_values :: "jvalue option list \<Rightarrow> string list" where
  "string_values [] = []"
| "string_values (Some (JStr t) # vs) = t # string_values vs"
| "string_values (_ # vs) = string_values vs"

definition category_label :: "string list \<Rightarrow> jrecord \<Rightarrow> string" where
  "category_label flds record = join middle_dot (string_values (map (map_of record) flds))"

text \<open>
  \<open>counts.set(label, (counts.get(label) ?? 0) + 1)\<close> on a \<open>Map\<close>, which keeps its keys
  in the order of their first insertion.
\<close>

fun bump :: "(string \<times> nat) list \<Rightarrow> string \<Rightarrow> (string \<times> nat) list" where
  "bump [] k = [(k, 1)]"
| "bump ((k', n) # m) k = (if k' = k then (k', n + 1) # m else (k', n) # bump m k)"

fun count_labels :: "string list \<Rightarrow> jrecord list \<Rightarrow> (string \<times> nat) list \<Rightarrow> (string \<times> nat) list" where
  "count_labels flds [] counts = counts"
| "count_labels flds (r # rs) counts =
     (let label = category_label flds r in
      count_labels flds rs (if label = [] then counts else bump counts label))"

definition categorical_chart :: "IngestionSummary \<Rightarrow> string list \<Rightarrow> chart option" where
  "categorical_chart s flds =
     (let data = count_labels flds (sample_records s) [] in
      if length data = 0 then None
      else if length data \<le> 5 then Some (PieOfCounts data)
      else Some (BarOfCounts data))"

text \<open>The time-series branch.\<close>

definition parseDate :: "js_builtins \<Rightarrow> jvalue option \<Rightarrow> int option" where
  "parseDate env v = (case v of Some (JStr t) \<Rightarrow> Date_parse env t | _ \<Rightarrow> None)"

fun numeric_entries :: "jrecord \<Rightarrow> (string \<times> jsnum) list" where
  "numeric_entries [] = []"
| "numeric_entries ((k, JNum n) # r) = (k, n) # numeric_entries r"
| "numeric_entries (_ # r) = numeric_entries r"

definition ts_row :: "js_builtins \<Rightarrow> string \<Rightarrow> jrecord \<Rightarrow> ts_point option" where
  "ts_row env fld record =
     (case parseDate env (map_of record fld) of
        None \<Rightarrow> None
      | Some d \<Rightarrow>
          (let numericFields = numeric_entries record in
           if length numericFields = 0 then None
           else Some \<lparr>point_date = d, point_values = numericFields\<rparr>))"

text \<open>
  The comparator of \<open>sort\<close> calls \<open>getTime()\<close> on the property \<open>date\<close> of both its
  arguments. With two points or more every point is compared at least once, and a
  \<open>date\<close> that is a number has no \<open>getTime\<close>: the call throws a \<open>TypeError\<close>. With fewer
  than two points the comparator is not called. The sort is stable.
\<close>

definition timeseries_chart :: "js_builtins \<Rightarrow> IngestionSummary \<Rightarrow> string \<Rightarrow> js_error + chart option" where
  "timeseries_chart env s fld =
     (let points = List.map_filter (ts_row env fld) (sample_records s) in
      if 2 \<le> length points \<and> list_ex date_is_number points then Inl TypeError
      else
        (let data = map (\<lambda>p. (p, toLocaleString env (point_date p))) (sort_key point_date points);
             numericKeys = filter (\<lambda>key. list_ex (\<lambda>p. point_numeric p key) points)
                             (schema_fields s) in
         if length data < 2 \<or> length numericKeys = 0 then Inr None
         else Inr (Some (LineOverTime data (take 3 numericKeys)))))"

text \<open>
  \<open>const [field] = preset.fields\<close>, tested as a condition: an absent first field and
  the empty string are both falsy, and both are the empty string here.
\<close>

definition first_field :: "VisualizationPreset \<Rightarrow> string" where
  "first_field preset = (case preset_fields preset of [] \<Rightarrow> [] | f # _ \<Rightarrow> f)"

text \<open>
  The chart \<open>VisualizationPreview\<close> computes: \<open>Inr None\<close> is the paragraph
  \<open>Not enough data to generate a visualization.\<close>, \<open>Inl\<close> an exception thrown while the
  component renders.
\<close>

definition VisualizationPreview ::
  "js_builtins \<Rightarrow> IngestionSummary option \<Rightarrow> VisualizationPreset \<Rightarrow> js_error + chart option"
where
  "VisualizationPreview env summ preset =
     (case summ of
        None \<Rightarrow> Inr None
      | Some s \<Rightarrow>
          (let fld = first_field preset in
           if preset_type preset = NumericPreset \<and> fld \<noteq> [] then Inr (numeric_chart env s fld)
           else if preset_type preset = CategoricalPreset then
             Inr (categorical_chart s (preset_fields preset))
           else if preset_type preset = TimeseriesPreset \<and> fld \<noteq> [] then
             timeseries_chart env s fld
           else Inr None))"

text \<open>
  The list of previews of the dashboard, \<open>presets.map(...)\<close> with one
  \<open>VisualizationPreview\<close> per preset. No component of the application is an error
  boundary, so an exception thrown by one preview while rendering takes down the whole
  list: React unmounts the tree.
\<close>

fun render_presets ::
  "js_builtins \<Rightarrow> IngestionSummary option \<Rightarrow> VisualizationPreset list \<Rightarrow> js_error + chart option list"
where
  "render_presets env summ [] = Inr []"
| "render_presets env summ (p # ps) =
     (case VisualizationPreview env summ p of
        Inl e \<Rightarrow> Inl e
      | Inr c \<Rightarrow>
          (case render_presets env summ ps of Inl e \<Rightarrow> Inl e | Inr cs \<Rightarrow> Inr (c # cs)))"

text \<open>Concrete builtins and summaries: \<open>Date.parse\<close> on the strings they use.\<close>

definition iso_days :: "string \<Rightarrow> int option" where
  "iso_days t =
     (if t = ''2024-01-01'' then Some 1704067200000
      else if t = ''2024-01-02'' then Some 1704153600000
      else None)"

definition sample_builtins :: js_builtins where
  "sample_builtins = \<lparr>Date_parse = iso_days, to_Number = (\<lambda>t. NaN), toLocaleString = (\<lambda>d. [])\<rparr>"





definition dated_summary :: IngestionSummary where
  "dated_summary =
     empty_summary
       \<lparr>schema_fields := [''ts'', ''date'', ''city'', ''score''],
        sample_records :=
          [[(''ts'', JStr ''2024-01-01''), (''date'', JNum (Fin 20240101)),
            (''city'', JStr ''Oslo''), (''score'', JNull)],
           [(''ts'', JStr ''2024-01-02''), (''date'', JNum (Fin 20240102)),
            (''city'', JStr ''Rome''), (''score'', JNull)]],
        numeric_summary :=
          [(''date'', \<lparr>mean = Some (Fin (40480203 / 2)), minimum = Some (Fin 20240101),
                        maximum = Some (Fin 20240102)\<rparr>),
           (''score'', \<lparr>mean = None, minimum = None, maximum = None\<rparr>)]\<rparr>"

section \<open>Properties of the polling loop\<close>

declare poll_loop.simps [simp del]

lemma requests_append: "requests (xs @ ys) = requests xs @ requests ys"
  by (induction xs rule: requests.induct) simp_all

lemma requests_rounds:
  "requests (concat (replicate n (poll_round base cid jid))) =
     replicate n (status_request base cid jid)"
  by (induction n) (simp_all add: poll_round_def)

lemma effects_emit: "effects (emit e st) = effects st @ [e]"
  by (simp add: emit_def)

lemma emit_fields:
  "jobStatus (emit e st) = jobStatus st"
  "ingestState (emit e st) = ingestState st"
  "ingestError (emit e st) = ingestError st"
  "connectionId (emit e st) = connectionId st"
  by (simp_all add: emit_def)

lemma notify_fields:
  "jobStatus (notify cb cid j st) = jobStatus st"
  "connectionId (notify cb cid j st) = connectionId st"
  "effects (notify cb cid j st) = effects st @ callback_calls cb cid j"
  "ingestState (notify cb cid j st) =
     (if callback_throws cb cid j then IngestFailed else ingestState st)"
  "ingestError (notify cb cid j st) =
     (if callback_throws cb cid j then Some ''Error while checking ingestion status.''
      else ingestError st)"
  by (auto simp: notify_def emit_def callback_calls_def callback_throws_def Let_def
      split: option.splits callback_result.splits)

lemma requests_callback_calls: "requests (callback_calls cb cid j) = []"
  by (simp add: callback_calls_def split: option.splits)

text \<open>The round and the requests, written out.\<close>

lemma poll_round_explicit:
  "poll_round base cid jid =
     [Delay 750,
      Fetch \<lparr>req_method = GET, req_url = base @ ''/connections/'' @ cid @ ''/ingest/'' @ jid,
             req_headers = [], req_body = None\<rparr>]"
  by (simp add: poll_round_def status_request_def status_url_def)

text \<open>As long as every remaining attempt sees a job in progress, the loop runs them all.\<close>

lemma poll_loop_timeout:
  assumes "\<forall>k. attempt \<le> k \<and> k < 12 \<longrightarrow> in_progress (server k)"
  shows "effects (poll_loop base cb server cid jid attempt st) =
           effects st @ concat (replicate (12 - attempt) (poll_round base cid jid)) \<and>
         ingestState (poll_loop base cb server cid jid attempt st) = Timeout \<and>
         ingestError (poll_loop base cb server cid jid attempt st) =
           Some ''Ingestion did not finish in the expected time.''"
  using assms
proof (induction base cb server cid jid attempt st rule: poll_loop.induct)
  case (1 base cb server cid jid attempt st)
  show ?case
  proof (cases "attempt < 12")
    case False
    then show ?thesis by (subst (1 2 3) poll_loop.simps) simp
  next
    case True
    with "1.prems" have "in_progress (server attempt)" by simp
    then obtain j where j: "server attempt = PollOk j" "status j \<noteq> Completed" "status j \<noteq> Failed"
      by (auto simp: in_progress_def split: poll_result.splits)
    let ?st2 = "(emit (Fetch (status_request base cid jid)) (emit (Delay 750) st))\<lparr>jobStatus := Some j\<rparr>"
    have step: "poll_loop base cb server cid jid attempt st =
                poll_loop base cb server cid jid (attempt + 1) ?st2"
      using True j by (subst poll_loop.simps) simp
    have ih: "effects (poll_loop base cb server cid jid (attempt + 1) ?st2) =
           effects ?st2 @ concat (replicate (12 - (attempt + 1)) (poll_round base cid jid)) \<and>
         ingestState (poll_loop base cb server cid jid (attempt + 1) ?st2) = Timeout \<and>
         ingestError (poll_loop base cb server cid jid (attempt + 1) ?st2) =
           Some ''Ingestion did not finish in the expected time.''"
      using "1.IH"[OF True refl j(1) refl j(2) j(3)] "1.prems" by simp
    have rep: "12 - attempt = Suc (12 - (attempt + 1))" using True by simp
    show ?thesis
      unfolding step using ih by (simp add: rep effects_emit poll_round_def)
  qed
qed

text \<open>The loop up to the first terminal snapshot, seen at attempt \<open>k\<close>.\<close>

lemma poll_loop_terminal:
  assumes "attempt \<le> k" "k < 12"
    and "\<forall>i. attempt \<le> i \<and> i < k \<longrightarrow> in_progress (server i)"
    and "server k = PollOk job" "status job = Completed \<or> status job = Failed"
  shows "effects (poll_loop base cb server cid jid attempt st) =
           effects st @ concat (replicate (Suc k - attempt) (poll_round base cid jid)) @
             callback_calls cb cid job \<and>
         jobStatus (poll_loop base cb server cid jid attempt st) = Some job \<and>
         ingestState (poll_loop base cb server cid jid attempt st) =
           (if callback_throws cb cid job then IngestFailed
            else if status job = Completed then IngestCompleted else IngestFailed) \<and>
         ingestError (poll_loop base cb server cid jid attempt st) =
           (if callback_throws cb cid job then Some ''Error while checking ingestion status.''
            else if status job = Completed then ingestError st else Some (failure_text job))"
  using assms
proof (induction base cb server cid jid attempt st rule: poll_loop.induct)
  case (1 base cb server cid jid attempt st)
  have lt: "attempt < 12" using "1.prems" by simp
  show ?case
  proof (cases "attempt = k")
    case True
    then have sk: "server attempt = PollOk job" using "1.prems" by simp
    show ?thesis
      using lt sk "1.prems"(5) True
      by (subst (1 2 3 4) poll_loop.simps)
         (auto simp: notify_fields effects_emit emit_fields poll_round_def failure_text_def
            Suc_diff_le)
  next
    case False
    then have less: "attempt < k" using "1.prems" by simp
    with "1.prems" have "in_progress (server attempt)" by simp
    then obtain j where j: "server attempt = PollOk j" "status j \<noteq> Completed" "status j \<noteq> Failed"
      by (auto simp: in_progress_def split: poll_result.splits)
    let ?st2 = "(emit (Fetch (status_request base cid jid)) (emit (Delay 750) st))\<lparr>jobStatus := Some j\<rparr>"
    have step: "poll_loop base cb server cid jid attempt st =
                poll_loop base cb server cid jid (attempt + 1) ?st2"
      using lt j by (subst poll_loop.simps) simp
    have pre: "attempt + 1 \<le> k" "\<forall>i. attempt + 1 \<le> i \<and> i < k \<longrightarrow> in_progress (server i)"
      using less "1.prems" by simp_all
    note ih = "1.IH"[OF lt refl j(1) refl j(2) j(3) pre(1) "1.prems"(2) pre(2)
        "1.prems"(4) "1.prems"(5)]
    have rep: "Suc k - attempt = Suc (Suc k - (attempt + 1))" using less by simp
    show ?thesis
      unfolding step using ih by (simp add: rep effects_emit emit_fields poll_round_def)
  qed
qed

text \<open>Whatever the server answers, the loop sends nothing but status requests.\<close>

lemma poll_loop_requests:
  "\<exists>evs. effects (poll_loop base cb server cid jid attempt st) = effects st @ evs \<and>
     (\<forall>r \<in> set (requests evs). r = status_request base cid jid) \<and>
     length (requests evs) \<le> 12 - attempt \<and>
     (ingestState (poll_loop base cb server cid jid attempt st) = Timeout \<longrightarrow>
        ingestState st = Timeout \<or>
        evs = concat (replicate (12 - attempt) (poll_round base cid jid)))"
proof (induction base cb server cid jid attempt st rule: poll_loop.induct)
  case (1 base cb server cid jid attempt st)
  show ?case
  proof (cases "attempt < 12")
    case False
    then show ?thesis by (subst (1 2) poll_loop.simps) simp
  next
    case lt: True
    let ?st1 = "emit (Fetch (status_request base cid jid)) (emit (Delay 750) st)"
    show ?thesis
    proof (cases "server attempt")
      case PollThrows
      then show ?thesis using lt
        by (subst (1 2) poll_loop.simps) (simp add: effects_emit emit_fields)
    next
      case PollNotOk
      then show ?thesis using lt
        by (subst (1 2) poll_loop.simps) (simp add: effects_emit emit_fields)
    next
      case (PollOk j)
      show ?thesis
      proof (cases "status j = Completed \<or> status j = Failed")
        case True
        then show ?thesis using lt PollOk
          by (subst (1 2) poll_loop.simps)
             (auto simp: effects_emit emit_fields notify_fields requests_append
                requests_callback_calls)
      next
        case False
        then have j: "status j \<noteq> Completed" "status j \<noteq> Failed" by simp_all
        let ?st2 = "?st1\<lparr>jobStatus := Some j\<rparr>"
        have step: "poll_loop base cb server cid jid attempt st =
                    poll_loop base cb server cid jid (attempt + 1) ?st2"
          using lt j PollOk by (subst poll_loop.simps) simp
        from "1.IH"[OF lt refl PollOk refl j]
        obtain evs where evs:
          "effects (poll_loop base cb server cid jid (attempt + 1) ?st2) = effects ?st2 @ evs"
          "\<forall>r \<in> set (requests evs). r = status_request base cid jid"
          "length (requests evs) \<le> 12 - (attempt + 1)"
          "ingestState (poll_loop base cb server cid jid (attempt + 1) ?st2) = Timeout \<longrightarrow>
             ingestState ?st2 = Timeout \<or>
             evs = concat (replicate (12 - (attempt + 1)) (poll_round base cid jid))"
          by blast
        have rep: "12 - attempt = Suc (12 - (attempt + 1))" using lt by simp
        show ?thesis
          unfolding step
          apply (rule exI[where x = "poll_round base cid jid @ evs"])
          using evs lt
          by (auto simp: rep effects_emit emit_fields poll_round_def requests_append)
      qed
    qed
  qed
qed

lemma in_progress_scripted:
  "k < length rs \<Longrightarrow> in_progress (scripted rs k) = in_progress (rs ! k)"
  by (simp add: scripted_def)

lemma in_progress_sample:
  "in_progress (PollOk (sample_job s m sm)) = (s \<noteq> Completed \<and> s \<noteq> Failed)"
  by (simp add: in_progress_def sample_job_def)

text \<open>
  C1. When every status request succeeds and no snapshot is terminal, \<open>pollJobStatus\<close>
  performs exactly twelve rounds, each a delay of 750 ms followed by one \<open>GET\<close> of
  \<open>/connections/{id}/ingest/{job_id}\<close>, and then sets the local timeout state; nothing
  follows the twelfth request.
\<close>

theorem pollJobStatus_times_out:
  assumes "\<forall>k<12. in_progress (server k)"
  shows "effects (pollJobStatus base cb server cid jid st) =
           effects st @
           concat (replicate 12
             [Delay 750,
              Fetch \<lparr>req_method = GET,
                     req_url = base @ ''/connections/'' @ cid @ ''/ingest/'' @ jid,
                     req_headers = [], req_body = None\<rparr>]) \<and>
         requests (drop (length (effects st)) (effects (pollJobStatus base cb server cid jid st))) =
           replicate 12
             \<lparr>req_method = GET, req_url = base @ ''/connections/'' @ cid @ ''/ingest/'' @ jid,
              req_headers = [], req_body = None\<rparr> \<and>
         ingestState (pollJobStatus base cb server cid jid st) = Timeout \<and>
         ingestError (pollJobStatus base cb server cid jid st) =
           Some ''Ingestion did not finish in the expected time.''"
proof -
  have "\<forall>k. 0 \<le> k \<and> k < 12 \<longrightarrow> in_progress (server k)"
    using assms by simp
  from poll_loop_timeout[OF this, of base cb cid jid "st\<lparr>ingestState := Polling\<rparr>"]
  have e: "effects (pollJobStatus base cb server cid jid st) =
             effects st @ concat (replicate 12 (poll_round base cid jid))"
    and t: "ingestState (pollJobStatus base cb server cid jid st) = Timeout"
    and m: "ingestError (pollJobStatus base cb server cid jid st) =
             Some ''Ingestion did not finish in the expected time.''"
    by (simp_all add: pollJobStatus_def)
  have r: "requests (drop (length (effects st)) (effects (pollJobStatus base cb server cid jid st))) =
             replicate 12 (status_request base cid jid)"
    by (simp add: e requests_rounds)
  show ?thesis
    using e t m r by (simp add: poll_round_explicit status_request_def status_url_def)
qed

theorem pollJobStatus_times_out_witness:
  "effects (pollJobStatus local_api returning_callback
      (scripted (replicate 12 (PollOk (sample_job Running None None)))) ''c1'' ''j1''
      (fresh_wizard (Some ''c1''))) =
     concat (replicate 12
       [Delay 750,
        Fetch \<lparr>req_method = GET, req_url = ''http://localhost:8000/connections/c1/ingest/j1'',
               req_headers = [], req_body = None\<rparr>]) \<and>
   ingestState (pollJobStatus local_api returning_callback
      (scripted (replicate 12 (PollOk (sample_job Running None None)))) ''c1'' ''j1''
      (fresh_wizard (Some ''c1''))) = Timeout"
proof -
  have h: "\<forall>k<12. in_progress (scripted (replicate 12 (PollOk (sample_job Running None None))) k)"
    by (simp add: in_progress_scripted in_progress_sample)
  from pollJobStatus_times_out[OF h, of local_api returning_callback "''c1''" "''j1''"
      "fresh_wizard (Some ''c1'')"]
  show ?thesis by (simp add: fresh_wizard_def local_api_def)
qed

text \<open>
  C3, as the code has it. The loop stops at the first snapshot whose status is completed
  or failed: it has sent one request per attempt up to that one and sends no more. The
  callback, when one was passed, receives that snapshot, on completed and on failed
  alike, and the snapshot is the job the wizard keeps. When the callback is absent or
  returns, a completed job leaves the state completed, and a failed job leaves the state
  failed with, as error text, the job's message when it is not null and
  \<open>Data ingestion failed.\<close> otherwise; this text is non-empty unless the job's message is
  the empty string. When the callback throws, the \<open>catch\<close> of the loop leaves the state
  failed with the text \<open>Error while checking ingestion status.\<close>
\<close>

theorem pollJobStatus_stops_at_terminal:
  assumes "k < 12" and "\<forall>i<k. in_progress (server i)"
    and "server k = PollOk job" and "status job = Completed \<or> status job = Failed"
  shows "effects (pollJobStatus base cb server cid jid st) =
           effects st @
           concat (replicate (Suc k)
             [Delay 750,
              Fetch \<lparr>req_method = GET,
                     req_url = base @ ''/connections/'' @ cid @ ''/ingest/'' @ jid,
                     req_headers = [], req_body = None\<rparr>]) @
           (case cb of None \<Rightarrow> [] | Some f \<Rightarrow> [JobCompleted cid job]) \<and>
         jobStatus (pollJobStatus base cb server cid jid st) = Some job \<and>
         (\<not> callback_throws cb cid job \<longrightarrow>
            ingestState (pollJobStatus base cb server cid jid st) =
              (if status job = Completed then IngestCompleted else IngestFailed) \<and>
            ingestError (pollJobStatus base cb server cid jid st) =
              (if status job = Completed then ingestError st
               else Some (case message job of Some m \<Rightarrow> m
                          | None \<Rightarrow> ''Data ingestion failed.''))) \<and>
         (callback_throws cb cid job \<longrightarrow>
            ingestState (pollJobStatus base cb server cid jid st) = IngestFailed \<and>
            ingestError (pollJobStatus base cb server cid jid st) =
              Some ''Error while checking ingestion status.'') \<and>
         (callback_throws cb cid job \<longleftrightarrow> (\<exists>f. cb = Some f \<and> f cid job = Thrown)) \<and>
         (message job \<noteq> Some [] \<longrightarrow>
            (case message job of Some m \<Rightarrow> m | None \<Rightarrow> ''Data ingestion failed.'') \<noteq> [])"
proof -
  have pre: "\<forall>i. 0 \<le> i \<and> i < k \<longrightarrow> in_progress (server i)"
    using assms(2) by simp
  have ne: "message job \<noteq> Some [] \<longrightarrow>
      (case message job of Some m \<Rightarrow> m | None \<Rightarrow> ''Data ingestion failed.'') \<noteq> []"
    by (cases "message job") simp_all
  have th: "callback_throws cb cid job \<longleftrightarrow> (\<exists>f. cb = Some f \<and> f cid job = Thrown)"
    by (cases cb) (simp_all add: callback_throws_def)
  have "0 \<le> k" by simp
  from poll_loop_terminal[OF this assms(1) pre assms(3) assms(4),
      of base cb cid jid "st\<lparr>ingestState := Polling\<rparr>"]
  have e: "effects (pollJobStatus base cb server cid jid st) =
             effects st @ concat (replicate (Suc k) (poll_round base cid jid)) @
               callback_calls cb cid job"
    and j: "jobStatus (pollJobStatus base cb server cid jid st) = Some job"
    and s: "ingestState (pollJobStatus base cb server cid jid st) =
             (if callback_throws cb cid job then IngestFailed
              else if status job = Completed then IngestCompleted else IngestFailed)"
    and m: "ingestError (pollJobStatus base cb server cid jid st) =
             (if callback_throws cb cid job then Some ''Error while checking ingestion status.''
              else if status job = Completed then ingestError st else Some (failure_text job))"
    by (simp_all add: pollJobStatus_def)
  have e': "effects (pollJobStatus base cb server cid jid st) =
           effects st @
           concat (replicate (Suc k)
             [Delay 750,
              Fetch \<lparr>req_method = GET,
                     req_url = base @ ''/connections/'' @ cid @ ''/ingest/'' @ jid,
                     req_headers = [], req_body = None\<rparr>]) @
           (case cb of None \<Rightarrow> [] | Some f \<Rightarrow> [JobCompleted cid job])"
    unfolding e poll_round_explicit callback_calls_def ..
  have c1: "\<not> callback_throws cb cid job \<longrightarrow>
            ingestState (pollJobStatus base cb server cid jid st) =
              (if status job = Completed then IngestCompleted else IngestFailed) \<and>
            ingestError (pollJobStatus base cb server cid jid st) =
              (if status job = Completed then ingestError st
               else Some (case message job of Some m \<Rightarrow> m
                          | None \<Rightarrow> ''Data ingestion failed.''))"
    using s m by (simp add: failure_text_def)
  have c2: "callback_throws cb cid job \<longrightarrow>
            ingestState (pollJobStatus base cb server cid jid st) = IngestFailed \<and>
            ingestError (pollJobStatus base cb server cid jid st) =
              Some ''Error while checking ingestion status.''"
    using s m by simp
  from e' j c1 c2 th ne show ?thesis
    by (intro conjI)
qed

theorem pollJobStatus_stops_at_terminal_witness:
  "effects (pollJobStatus local_api returning_callback
      (scripted [PollOk (sample_job Pending None None), PollOk (sample_job Running None None),
                 PollOk (sample_job Failed None None), PollOk (sample_job Completed None None)])
      ''c1'' ''j1'' (fresh_wizard (Some ''c1''))) =
     concat (replicate 3
       [Delay 750,
        Fetch \<lparr>req_method = GET, req_url = ''http://localhost:8000/connections/c1/ingest/j1'',
               req_headers = [], req_body = None\<rparr>]) @
       [JobCompleted ''c1'' (sample_job Failed None None)] \<and>
   ingestError (pollJobStatus local_api returning_callback
      (scripted [PollOk (sample_job Pending None None), PollOk (sample_job Running None None),
                 PollOk (sample_job Failed None None), PollOk (sample_job Completed None None)])
      ''c1'' ''j1'' (fresh_wizard (Some ''c1''))) = Some ''Data ingestion failed.''"
proof -
  let ?srv = "scripted [PollOk (sample_job Pending None None), PollOk (sample_job Running None None),
                 PollOk (sample_job Failed None None), PollOk (sample_job Completed None None)]"
  have k: "(2::nat) < 12" by simp
  have pre: "\<forall>i<2. in_progress (?srv i)"
    by (simp add: in_progress_scripted in_progress_sample less_Suc_eq numeral_2_eq_2)
  have at: "?srv 2 = PollOk (sample_job Failed None None)"
    by (simp add: scripted_def)
  have fin: "status (sample_job Failed None None) = Completed \<or>
             status (sample_job Failed None None) = Failed"
    by (simp add: sample_job_def)
  have nt: "\<not> callback_throws returning_callback ''c1'' (sample_job Failed None None)"
    by (simp add: callback_throws_def returning_callback_def)
  from pollJobStatus_stops_at_terminal[OF k pre at fin, of local_api returning_callback
      "''c1''" "''j1''" "fresh_wizard (Some ''c1'')"] nt
  show ?thesis
    by (simp add: fresh_wizard_def sample_job_def numeral_3_eq_3 local_api_def
        returning_callback_def)
qed

text \<open>
  C3 as stated does not hold. A failed job whose message is the empty string, with no
  summary and no errors, ends the loop with an empty error text. And with a callback
  that throws, a failed job with the message \<open>boom\<close> ends the loop with the text of the
  \<open>catch\<close>, not with the job's message.
\<close>

theorem pollJobStatus_empty_failure_message:
  "ingestState (pollJobStatus local_api returning_callback
      (scripted [PollOk (sample_job Failed (Some []) None)]) ''c1'' ''j1''
      (fresh_wizard (Some ''c1''))) = IngestFailed \<and>
   jobStatus (pollJobStatus local_api returning_callback
      (scripted [PollOk (sample_job Failed (Some []) None)]) ''c1'' ''j1''
      (fresh_wizard (Some ''c1''))) = Some (sample_job Failed (Some []) None) \<and>
   summary (sample_job Failed (Some []) None) = None \<and>
   errors (sample_job Failed (Some []) None) = [] \<and>
   ingestError (pollJobStatus local_api returning_callback
      (scripted [PollOk (sample_job Failed (Some []) None)]) ''c1'' ''j1''
      (fresh_wizard (Some ''c1''))) = Some [] \<and>
   message (sample_job Failed (Some ''boom'') None) = Some ''boom'' \<and>
   ingestError (pollJobStatus local_api throwing_callback
      (scripted [PollOk (sample_job Failed (Some ''boom'') None)]) ''c1'' ''j1''
      (fresh_wizard (Some ''c1''))) = Some ''Error while checking ingestion status.''"
  by (simp add: pollJobStatus_def poll_loop.simps scripted_def sample_job_def fresh_wizard_def
      notify_def emit_def returning_callback_def throwing_callback_def)

text \<open>
  C4. Every request \<open>pollJobStatus\<close> sends is the \<open>GET\<close> of the job-status endpoint, at
  most twelve of them; a run that ends in the timeout state consists of the twelve
  rounds and nothing else, so giving up sends nothing to the server.
\<close>

theorem pollJobStatus_only_status_requests:
  "\<exists>evs. effects (pollJobStatus base cb server cid jid st) = effects st @ evs \<and>
     (\<forall>r \<in> set (requests evs). r = status_request base cid jid) \<and>
     length (requests evs) \<le> 12 \<and>
     (ingestState (pollJobStatus base cb server cid jid st) = Timeout \<longrightarrow>
        evs = concat (replicate 12 (poll_round base cid jid)))"
  using poll_loop_requests[of base cb server cid jid 0 "st\<lparr>ingestState := Polling\<rparr>"]
  by (simp add: pollJobStatus_def)

theorem pollJobStatus_only_status_requests_witness:
  "\<exists>evs. effects (pollJobStatus local_api returning_callback
        (scripted (replicate 12 (PollOk (sample_job Pending None None)))) ''c1'' ''j1''
        (fresh_wizard (Some ''c1''))) = evs \<and>
     list_all (\<lambda>r. r = status_request local_api ''c1'' ''j1'') (requests evs) \<and>
     evs = concat (replicate 12 (poll_round local_api ''c1'' ''j1''))"
proof -
  let ?srv = "scripted (replicate 12 (PollOk (sample_job Pending None None)))"
  let ?st = "fresh_wizard (Some ''c1'')"
  have "\<forall>k. 0 \<le> k \<and> k < 12 \<longrightarrow> in_progress (?srv k)"
    by (simp add: in_progress_scripted in_progress_sample)
  from poll_loop_timeout[OF this, of local_api returning_callback "''c1''" "''j1''"
      "?st\<lparr>ingestState := Polling\<rparr>"]
  have t: "ingestState (pollJobStatus local_api returning_callback ?srv ''c1'' ''j1'' ?st) = Timeout"
    by (simp add: pollJobStatus_def)
  from pollJobStatus_only_status_requests[of local_api returning_callback ?srv "''c1''" "''j1''" ?st] t
  show ?thesis
    by (auto simp: fresh_wizard_def list_all_iff)
qed

section \<open>Properties of \<open>handleIngestion\<close>\<close>

lemma pollJobStatus_effects:
  "\<exists>evs. effects (pollJobStatus base cb server cid jid st) = effects st @ evs \<and>
     (\<forall>r \<in> set (requests evs). r = status_request base cid jid)"
  using poll_loop_requests[of base cb server cid jid 0 "st\<lparr>ingestState := Polling\<rparr>"]
  by (auto simp: pollJobStatus_def)

lemma ingest_request_explicit:
  "ingest_request base cid =
     \<lparr>req_method = POST, req_url = base @ ''/connections/'' @ cid @ ''/ingest'',
      req_headers = [(''Content-Type'', ''application/json'')],
      req_body = Some (''{'' @ [CHR 0x22] @ ''force_refresh'' @ [CHR 0x22] @ '':false}'')\<rparr>"
  by (simp add: ingest_request_def ingest_url_def force_refresh_body_def)

lemma handleIngestion_unsaved:
  "connectionId st = None \<or> connectionId st = Some [] \<Longrightarrow>
     handleIngestion base cb start server st = save_first st"
  by (auto simp: handleIngestion_def)

lemma handleIngestion_saved:
  assumes "connectionId st = Some cid" "cid \<noteq> []"
  shows "\<exists>rest. effects (handleIngestion base cb start server st) =
          effects st @ Fetch (ingest_request base cid) # rest \<and>
          (\<forall>r \<in> set (requests rest). req_method r = GET)"
proof (cases start)
  case (StartThrows m)
  then show ?thesis using assms by (simp add: handleIngestion_def effects_emit)
next
  case (StartNotOk d)
  then show ?thesis using assms by (simp add: handleIngestion_def effects_emit)
next
  case (StartOk job)
  let ?st2 = "emit (Fetch (ingest_request base cid))
                (st\<lparr>ingestState := Starting, ingestError := None\<rparr>)"
  from pollJobStatus_effects[of base cb server cid "job_id job" "?st2\<lparr>jobStatus := Some job\<rparr>"]
  obtain evs where evs:
    "effects (pollJobStatus base cb server cid (job_id job) (?st2\<lparr>jobStatus := Some job\<rparr>)) =
       effects (?st2\<lparr>jobStatus := Some job\<rparr>) @ evs"
    "\<forall>r \<in> set (requests evs). r = status_request base cid (job_id job)"
    by blast
  have "\<forall>r \<in> set (requests evs). req_method r = GET"
    using evs(2) by (auto simp: status_request_def)
  then show ?thesis
    using StartOk assms evs(1) by (simp add: handleIngestion_def effects_emit)
qed

text \<open>
  C6. A \<open>POST\<close> is sent by \<open>handleIngestion\<close> only when a connection id is set, and it
  is then the first effect: the \<open>POST\<close> to \<open>/connections/{connectionId}/ingest\<close> with the
  header \<open>Content-Type: application/json\<close> and the JSON body \<open>{force_refresh: false}\<close>
  (written out below with \<open>CHR 0x22\<close> for the double quote); every later request is a
  \<open>GET\<close>. With no connection id the handler sends nothing and fails locally with an
  error message.
\<close>

theorem handleIngestion_start_request:
  "\<exists>evs. effects (handleIngestion base cb start server st) = effects st @ evs \<and>
     (\<forall>r \<in> set (requests evs). req_method r = POST \<longrightarrow>
        (\<exists>cid. connectionId st = Some cid \<and> cid \<noteq> [] \<and>
           r = \<lparr>req_method = POST, req_url = base @ ''/connections/'' @ cid @ ''/ingest'',
                req_headers = [(''Content-Type'', ''application/json'')],
                req_body =
                  Some (''{'' @ [CHR 0x22] @ ''force_refresh'' @ [CHR 0x22] @ '':false}'')\<rparr>)) \<and>
     (connectionId st = None \<or> connectionId st = Some [] \<longrightarrow>
        evs = [] \<and>
        ingestState (handleIngestion base cb start server st) = IngestFailed \<and>
        ingestError (handleIngestion base cb start server st) =
          Some ''Save the connection before running ingestion.'') \<and>
     (\<forall>cid. connectionId st = Some cid \<and> cid \<noteq> [] \<longrightarrow>
        (\<exists>rest.
           evs =
             Fetch \<lparr>req_method = POST, req_url = base @ ''/connections/'' @ cid @ ''/ingest'',
                    req_headers = [(''Content-Type'', ''application/json'')],
                    req_body =
                      Some (''{'' @ [CHR 0x22] @ ''force_refresh'' @ [CHR 0x22] @ '':false}'')\<rparr>
               # rest \<and>
           (\<forall>r \<in> set (requests rest). req_method r = GET)))"
proof (cases "connectionId st = None \<or> connectionId st = Some []")
  case True
  then show ?thesis
    unfolding handleIngestion_unsaved[OF True] by (auto simp: save_first_def)
next
  case False
  then obtain cid where cid: "connectionId st = Some cid" "cid \<noteq> []" by auto
  from handleIngestion_saved[OF cid, of base cb start server]
  obtain rest where rest:
    "effects (handleIngestion base cb start server st) =
       effects st @ Fetch (ingest_request base cid) # rest"
    "\<forall>r \<in> set (requests rest). req_method r = GET"
    by blast
  show ?thesis
    apply (rule exI[where x = "Fetch (ingest_request base cid) # rest"])
    using cid rest by (auto simp: ingest_request_explicit)
qed

theorem handleIngestion_start_request_witness:
  "requests (effects (handleIngestion local_api returning_callback (StartNotOk None) (scripted [])
      (fresh_wizard (Some ''c1'')))) =
     [\<lparr>req_method = POST, req_url = ''http://localhost:8000/connections/c1/ingest'',
       req_headers = [(''Content-Type'', ''application/json'')],
       req_body = Some (''{'' @ [CHR 0x22] @ ''force_refresh'' @ [CHR 0x22] @ '':false}'')\<rparr>] \<and>
   effects (handleIngestion local_api returning_callback (StartNotOk None) (scripted [])
      (fresh_wizard None)) = []"
proof -
  from handleIngestion_start_request[of local_api returning_callback "StartNotOk None"
      "scripted []" "fresh_wizard None"]
  have a: "effects (handleIngestion local_api returning_callback (StartNotOk None) (scripted [])
      (fresh_wizard None)) = []"
    by (auto simp: fresh_wizard_def)
  from handleIngestion_start_request[of local_api returning_callback "StartNotOk None"
      "scripted []" "fresh_wizard (Some ''c1'')"]
  obtain rest where b: "effects (handleIngestion local_api returning_callback (StartNotOk None)
      (scripted []) (fresh_wizard (Some ''c1''))) =
      Fetch \<lparr>req_method = POST, req_url = local_api @ ''/connections/'' @ ''c1'' @ ''/ingest'',
             req_headers = [(''Content-Type'', ''application/json'')],
             req_body = Some (''{'' @ [CHR 0x22] @ ''force_refresh'' @ [CHR 0x22] @ '':false}'')\<rparr>
        # rest"
    by (auto simp: fresh_wizard_def)
  have c: "effects (handleIngestion local_api returning_callback (StartNotOk None)
      (scripted []) (fresh_wizard (Some ''c1''))) = [Fetch (ingest_request local_api ''c1'')]"
    by (simp add: handleIngestion_def fresh_wizard_def effects_emit)
  from b c have "rest = []" by simp
  with a b show ?thesis
    by (simp add: local_api_def)
qed

section \<open>Properties of the job state machine\<close>

lemma transition_status:
  "transition j e = Some j' \<Longrightarrow>
     (status j = Pending \<and> status j' = Running) \<or>
     (status j = Running \<and> (status j' = Completed \<or> status j' = Failed))"
  by (cases e) (auto split: if_splits)

lemma transition_terminal:
  "status j = Completed \<or> status j = Failed \<Longrightarrow> transition j e = None"
  by (cases e) auto

lemma history_terminal:
  assumes "status j = Completed \<or> status j = Failed" and "history j es = Some js"
  shows "js = [j]"
proof (cases es)
  case Nil
  with assms show ?thesis by simp
next
  case (Cons e es')
  with assms transition_terminal[OF assms(1), of e] show ?thesis by simp
qed

lemma history_head: "history j es = Some js \<Longrightarrow> \<exists>js'. js = j # js'"
  by (cases es) (auto split: option.splits)

lemma history_completed:
  "history j es = Some js \<Longrightarrow> i \<le> k \<Longrightarrow> k < length js \<Longrightarrow>
     status (js ! i) = Completed \<Longrightarrow> status (js ! k) = Completed"
proof (induction es arbitrary: j js i k)
  case Nil
  then show ?case by auto
next
  case (Cons e es)
  from Cons.prems(1) obtain j' js' where t: "transition j e = Some j'"
    and h: "history j' es = Some js'" and js: "js = j # js'"
    by (auto split: option.splits)
  show ?case
  proof (cases i)
    case 0
    then have "status j = Completed" using Cons.prems(4) js by simp
    then have "transition j e = None" by (simp add: transition_terminal)
    with t show ?thesis by simp
  next
    case (Suc i')
    then obtain k' where k: "k = Suc k'" using Cons.prems(2) by (cases k) auto
    have "status (js' ! i') = Completed" using Cons.prems(4) js Suc by simp
    moreover have "i' \<le> k'" "k' < length js'" using Cons.prems(2,3) js Suc k by simp_all
    ultimately have "status (js' ! k') = Completed" using Cons.IH[OF h] by blast
    then show ?thesis using js k by simp
  qed
qed

lemma history_new_job:
  assumes "history (new_job jid cid t) es = Some js"
  shows "map status js \<in> {[Pending], [Pending, Running], [Pending, Running, Completed],
           [Pending, Running, Failed]}"
proof (cases es)
  case Nil
  with assms show ?thesis by (auto simp: new_job_def)
next
  case (Cons e1 es1)
  with assms obtain j1 js1 where t1: "transition (new_job jid cid t) e1 = Some j1"
    and h1: "history j1 es1 = Some js1" and js: "js = new_job jid cid t # js1"
    by (auto split: option.splits)
  from transition_status[OF t1] have s1: "status j1 = Running"
    by (simp add: new_job_def)
  show ?thesis
  proof (cases es1)
    case Nil
    with h1 js s1 show ?thesis by (auto simp: new_job_def)
  next
    case (Cons e2 es2)
    with h1 obtain j2 js2 where t2: "transition j1 e2 = Some j2"
      and h2: "history j2 es2 = Some js2" and js1: "js1 = j1 # js2"
      by (auto split: option.splits)
    from transition_status[OF t2] s1 have s2: "status j2 = Completed \<or> status j2 = Failed"
      by simp
    from history_terminal[OF s2 h2] have "js2 = [j2]" .
    with js js1 s1 s2 show ?thesis by (auto simp: new_job_def)
  qed
qed

text \<open>
  C7. Every transition goes from pending to running or from running to completed or
  failed; no transition leaves completed or failed; the snapshots of a job created
  pending carry the statuses pending, running and then completed or failed, in this
  order; and in the snapshots of any job, a status completed is followed by completed
  only.
\<close>

theorem job_status_monotonic:
  "(transition j e = Some j' \<longrightarrow>
      (status j = Pending \<and> status j' = Running) \<or>
      (status j = Running \<and> (status j' = Completed \<or> status j' = Failed))) \<and>
   (status j = Completed \<or> status j = Failed \<longrightarrow> transition j e = None) \<and>
   (history (new_job jid cid t) es = Some js \<longrightarrow>
      map status js \<in> {[Pending], [Pending, Running], [Pending, Running, Completed],
        [Pending, Running, Failed]}) \<and>
   (history j es = Some js' \<and> i \<le> k \<and> k < length js' \<and> status (js' ! i) = Completed \<longrightarrow>
      status (js' ! k) = Completed)"
  using transition_status[of j e j'] transition_terminal[of j e]
    history_new_job[of jid cid t es js] history_completed[of j es js' i k]
  by blast

theorem job_status_monotonic_witness:
  "map_option (map status)
     (history (new_job ''j1'' ''c1'' ''t0'') [Pickup ''t1'', Succeed ''t2'' empty_summary]) =
     Some [Pending, Running, Completed] \<and>
   transition (sample_job Completed None (Some empty_summary)) (Fail ''t3'' ''late'') = None \<and>
   history (new_job ''j1'' ''c1'' ''t0'') [Pickup ''t1'', Succeed ''t2'' empty_summary, Pickup ''t3''] = None"
proof -
  let ?j = "sample_job Completed None (Some empty_summary)"
  have "status ?j = Completed \<or> status ?j = Failed" by (simp add: sample_job_def)
  with job_status_monotonic[of ?j "Fail ''t3'' ''late''"]
  have "transition ?j (Fail ''t3'' ''late'') = None" by blast
  then show ?thesis by (simp add: new_job_def)
qed

section \<open>Properties of the dashboard\<close>















lemma buildSampleRows_Cons:
  "sample_records s = first # rest \<Longrightarrow>
   buildSampleRows oe (Some s) =
     \<lparr>headers = map fst first,
      rows = map (\<lambda>record.
                    map (\<lambda>header. sample_cell oe (js_get (inherited oe) record header))
                      (map fst first))
               (take 5 (sample_records s))\<rparr>"
  by (simp add: buildSampleRows_def Let_def)

lemma sample_cell_js_get:
  "sample_cell oe (js_get (inherited oe) record header) =
     (case map_of record header of
        None \<Rightarrow> if inherited oe header then String_inherited oe header else ''-''
      | Some JNull \<Rightarrow> ''-''
      | Some v \<Rightarrow> String_value oe v)"
  by (simp add: sample_cell_def js_get_def split: option.splits jvalue.splits)

text \<open>
  C9. With at least one sample record, the headers of the sample table are the keys of
  the first record and nothing else, and the rows are the first five records at most,
  each projected onto these headers: a cell is \<open>-\<close> when the value read is null or
  undefined, that is, when it is an own property that is null, or no own property
  and no member of \<open>Object.prototype\<close> either. A key that the first record lacks is no
  header, whatever the later records and \<open>schema_fields\<close> hold.
\<close>

theorem buildSampleRows_first_record:
  assumes "sample_records s = first # rest"
  shows "headers (buildSampleRows oe (Some s)) = map fst first \<and>
         rows (buildSampleRows oe (Some s)) =
           map (\<lambda>record. map (\<lambda>header.
                  case map_of record header of
                    None \<Rightarrow> if inherited oe header then String_inherited oe header else ''-''
                  | Some JNull \<Rightarrow> ''-''
                  | Some v \<Rightarrow> String_value oe v) (map fst first))
             (take 5 (sample_records s)) \<and>
         length (rows (buildSampleRows oe (Some s))) = min 5 (length (sample_records s)) \<and>
         (\<forall>row \<in> set (rows (buildSampleRows oe (Some s))). length row = length first) \<and>
         (\<forall>k. k \<notin> fst ` set first \<longrightarrow> k \<notin> set (headers (buildSampleRows oe (Some s))))"
  unfolding buildSampleRows_Cons[OF assms] sample_cell_js_get by auto

theorem buildSampleRows_first_record_witness:
  "buildSampleRows sample_object_env
     (Some (empty_summary\<lparr>schema_fields := [''a'', ''b'', ''c''],
        sample_records := [[(''a'', JStr ''x''), (''b'', JNull), (''constructor'', JStr ''k'')],
                           [(''b'', JStr ''y''), (''c'', JStr ''z'')]]\<rparr>)) =
     \<lparr>headers = [''a'', ''b'', ''constructor''],
      rows = [[''x'', ''-'', ''k''], [''-'', ''y'', ''function'']]\<rparr>"
proof -
  let ?s = "empty_summary\<lparr>schema_fields := [''a'', ''b'', ''c''],
        sample_records := [[(''a'', JStr ''x''), (''b'', JNull), (''constructor'', JStr ''k'')],
                           [(''b'', JStr ''y''), (''c'', JStr ''z'')]]\<rparr>"
  have h: "sample_records ?s =
      [(''a'', JStr ''x''), (''b'', JNull), (''constructor'', JStr ''k'')] #
      [[(''b'', JStr ''y''), (''c'', JStr ''z'')]]"
    by simp
  from buildSampleRows_first_record[OF h, of sample_object_env]
  have "headers (buildSampleRows sample_object_env (Some ?s)) = [''a'', ''b'', ''constructor'']"
    and "rows (buildSampleRows sample_object_env (Some ?s)) =
           [[''x'', ''-'', ''k''], [''-'', ''y'', ''function'']]"
    by (simp_all add: sample_object_env_def)
  then show ?thesis
    by (cases "buildSampleRows sample_object_env (Some ?s)") simp
qed

section \<open>Properties of the saved connection and the history modal\<close>

lemma subseq_filterConnections: "subseq (filterConnections trim lower cs f) cs"
  by (simp add: filterConnections_def Let_def)

lemma history_entries_HistoryModal:
  "history_entries (HistoryModal trim lower True cs f) = filterConnections trim lower (drop 1 cs) f"
proof (cases "length cs \<le> 1")
  case True
  then have "drop 1 cs = []" by simp
  then show ?thesis using True
    by (simp add: HistoryModal_def history_entries_def filterConnections_def Let_def)
next
  case False
  then show ?thesis
    by (auto simp: HistoryModal_def history_entries_def Let_def)
qed

lemma history_entries_subseq:
  "subseq (history_entries (HistoryModal trim lower opened cs f)) (drop 1 cs)"
proof (cases opened)
  case True
  then show ?thesis
    by (simp add: history_entries_HistoryModal subseq_filterConnections)
next
  case False
  then show ?thesis by (simp add: HistoryModal_def history_entries_def Let_def)
qed

lemma saved_entries_take: "saved_entries (saved_connections cs) = take 1 cs"
  by (cases cs) (simp_all add: saved_connections_def saved_entries_def)

text \<open>
  C10. The dashboard lists the first connection and no other. The open history modal
  lists, of the connections from index 1 on and in their order, all when the filter is
  blank and otherwise those whose portal name or dataset id contains the filter text,
  case folded on both sides. It shows \<open>No previous connections found.\<close> exactly when
  there is at most one connection. The two lists split the connections by position, so
  no entry is in both, and with distinct ids no connection id is in both.
\<close>

theorem saved_and_history_lists:
  "saved_entries (saved_connections connections) = take 1 connections \<and>
   (connections \<noteq> [] \<longrightarrow> saved_connections connections = SavedList [connections ! 0]) \<and>
   history_entries (HistoryModal trim lower True connections filterText) =
     (if trim filterText = [] then drop 1 connections
      else filter (\<lambda>c. sublist (lower filterText) (lower (portal_name c)) \<or>
                        sublist (lower filterText) (lower (dataset_id c)))
             (drop 1 connections)) \<and>
   subseq (history_entries (HistoryModal trim lower opened connections filterText))
     (drop 1 connections) \<and>
   (HistoryModal trim lower True connections filterText = Some NoPrevious \<longleftrightarrow>
      length connections \<le> 1) \<and>
   (distinct (map conn_id connections) \<longrightarrow>
      (\<forall>c \<in> set (history_entries (HistoryModal trim lower opened connections filterText)).
         \<forall>d \<in> set (saved_entries (saved_connections connections)). conn_id c \<noteq> conn_id d))"
proof -
  have a: "connections \<noteq> [] \<longrightarrow> saved_connections connections = SavedList [connections ! 0]"
    by (cases connections) (simp_all add: saved_connections_def)
  have b: "HistoryModal trim lower True connections filterText = Some NoPrevious \<longleftrightarrow>
      length connections \<le> 1"
    by (simp add: HistoryModal_def Let_def)
  have c: "distinct (map conn_id connections) \<longrightarrow>
      (\<forall>c \<in> set (history_entries (HistoryModal trim lower opened connections filterText)).
         \<forall>d \<in> set (saved_entries (saved_connections connections)). conn_id c \<noteq> conn_id d)"
  proof (intro impI ballI)
    fix c d
    assume dist: "distinct (map conn_id connections)"
      and c: "c \<in> set (history_entries (HistoryModal trim lower opened connections filterText))"
      and d: "d \<in> set (saved_entries (saved_connections connections))"
    from list_emb_set[OF history_entries_subseq c]
    have c': "c \<in> set (drop 1 connections)" by blast
    from d have d': "d \<in> set (take 1 connections)" by (simp only: saved_entries_take)
    have "connections = take 1 connections @ drop 1 connections" by simp
    then have "distinct (map conn_id (take 1 connections) @ map conn_id (drop 1 connections))"
      using dist by (metis map_append)
    then have "set (map conn_id (take 1 connections)) \<inter> set (map conn_id (drop 1 connections)) = {}"
      by (simp only: distinct_append)
    with c' d' show "conn_id c \<noteq> conn_id d" by auto
  qed
  have e: "history_entries (HistoryModal trim lower True connections filterText) =
     (if trim filterText = [] then drop 1 connections
      else filter (\<lambda>c. sublist (lower filterText) (lower (portal_name c)) \<or>
                        sublist (lower filterText) (lower (dataset_id c)))
             (drop 1 connections))"
    unfolding history_entries_HistoryModal by (simp add: filterConnections_def Let_def)
  show ?thesis
    using a b c e saved_entries_take[of connections]
      history_entries_subseq[of trim lower opened connections filterText]
    by blast
qed


lemma ascii_lower_samples: "ascii_lower ''SEOUL'' = ''seoul''" "ascii_lower ''Seoul Data'' = ''seoul data''"
  "ascii_lower ''Busan Open'' = ''busan open''" "ascii_lower ''Air'' = ''air''"
  "ascii_lower ''Jeju'' = ''jeju''" "ascii_lower ''seoul-bus'' = ''seoul-bus''"
  "ascii_lower ''traffic'' = ''traffic''"
  by (simp_all add: ascii_lower_def)

lemma sublist_samples: "\<not> sublist ''seoul'' ''busan open''" "\<not> sublist ''seoul'' ''air''"
  "\<not> sublist ''seoul'' ''jeju''" "sublist ''seoul'' ''seoul-bus''"
  by (simp_all add: sublist_Cons_right)

theorem saved_and_history_lists_witness:
  "history_entries (HistoryModal ascii_trim ascii_lower True
      [sample_connection ''1'' ''Seoul Data'' ''traffic'',
       sample_connection ''2'' ''Busan Open'' ''Air'',
       sample_connection ''3'' ''Jeju'' ''seoul-bus''] ''SEOUL'') =
     [sample_connection ''3'' ''Jeju'' ''seoul-bus''] \<and>
   saved_entries (saved_connections
      [sample_connection ''1'' ''Seoul Data'' ''traffic'',
       sample_connection ''2'' ''Busan Open'' ''Air'',
       sample_connection ''3'' ''Jeju'' ''seoul-bus'']) =
     [sample_connection ''1'' ''Seoul Data'' ''traffic''] \<and>
   conn_id (sample_connection ''3'' ''Jeju'' ''seoul-bus'') \<noteq>
     conn_id (sample_connection ''1'' ''Seoul Data'' ''traffic'')"
proof -
  let ?cs = "[sample_connection ''1'' ''Seoul Data'' ''traffic'',
       sample_connection ''2'' ''Busan Open'' ''Air'',
       sample_connection ''3'' ''Jeju'' ''seoul-bus'']"
  have t: "ascii_trim ''SEOUL'' \<noteq> []" by (simp add: ascii_trim_def)
  have f: "filter (\<lambda>c. sublist (ascii_lower ''SEOUL'') (ascii_lower (portal_name c)) \<or>
                        sublist (ascii_lower ''SEOUL'') (ascii_lower (dataset_id c)))
             (drop 1 ?cs) = [sample_connection ''3'' ''Jeju'' ''seoul-bus'']"
    by (simp add: sample_connection_def ascii_lower_samples sublist_samples)
  from saved_and_history_lists[of ?cs ascii_trim ascii_lower "''SEOUL''" True]
  have h: "history_entries (HistoryModal ascii_trim ascii_lower True ?cs ''SEOUL'') =
     (if ascii_trim ''SEOUL'' = [] then drop 1 ?cs
      else filter (\<lambda>c. sublist (ascii_lower ''SEOUL'') (ascii_lower (portal_name c)) \<or>
                        sublist (ascii_lower ''SEOUL'') (ascii_lower (dataset_id c)))
             (drop 1 ?cs))"
    and s: "saved_entries (saved_connections ?cs) = take 1 ?cs"
    by blast+
  have n: "conn_id (sample_connection ''3'' ''Jeju'' ''seoul-bus'') \<noteq>
     conn_id (sample_connection ''1'' ''Seoul Data'' ''traffic'')"
    by (simp add: sample_connection_def)
  show ?thesis
    unfolding h s using t f n by simp
qed

section \<open>Properties of the chart presets\<close>



lemma recommendPresets_Some:
  "recommendPresets env (Some s) =
     map (\<lambda>kv. createNumericPreset (fst kv) (snd kv)) (numeric_summary s) @
     (if collectCategoricalFields env s = [] then []
      else [createCategoricalPreset (take 2 (collectCategoricalFields env s))]) @
     map createTimeSeriesPreset (collectTimestampFields env s)"
  by (simp add: recommendPresets_def Let_def)











lemma iso_days_samples:
  "iso_days ''2024-01-01'' = Some 1704067200000" "iso_days ''2024-01-02'' = Some 1704153600000"
  "iso_days ''Oslo'' = None" "iso_days ''Rome'' = None" "iso_days ''a'' = None"
  "iso_days ''Ann'' = None"
  by (simp_all add: iso_days_def)





section \<open>Properties of the chart previews\<close>

lemma dated_fields:
  "sample_records dated_summary =
     [[(''ts'', JStr ''2024-01-01''), (''date'', JNum (Fin 20240101)),
       (''city'', JStr ''Oslo''), (''score'', JNull)],
      [(''ts'', JStr ''2024-01-02''), (''date'', JNum (Fin 20240102)),
       (''city'', JStr ''Rome''), (''score'', JNull)]]"
  "schema_fields dated_summary = [''ts'', ''date'', ''city'', ''score'']"
  "numeric_summary dated_summary =
     [(''date'', \<lparr>mean = Some (Fin (40480203 / 2)), minimum = Some (Fin 20240101),
                   maximum = Some (Fin 20240102)\<rparr>),
      (''score'', \<lparr>mean = None, minimum = None, maximum = None\<rparr>)]"
  by (simp_all add: dated_summary_def empty_summary_def)

lemma dated_presets:
  "recommendPresets sample_builtins (Some dated_summary) =
     [createNumericPreset ''date''
        \<lparr>mean = Some (Fin (40480203 / 2)), minimum = Some (Fin 20240101),
         maximum = Some (Fin 20240102)\<rparr>,
      createNumericPreset ''score'' \<lparr>mean = None, minimum = None, maximum = None\<rparr>,
      createCategoricalPreset [''city''],
      createTimeSeriesPreset ''ts'']"
  by (simp add: recommendPresets_Some collectCategoricalFields_def collectTimestampFields_def
      dated_fields is_string_def isLikelyTimestamp_def sample_builtins_def iso_days_samples)

lemma dated_numeric_date:
  "VisualizationPreview sample_builtins (Some dated_summary) (createNumericPreset ''date'' st) =
     Inr (Some (LineOfValues [(0, Fin 20240101), (1, Fin 20240102)]))"
  by (simp add: VisualizationPreview_def createNumericPreset_def first_field_def numeric_chart_def
      numeric_data_def numeric_value_def dated_fields enumerate_eq_zip
      upt_rec)

lemma dated_numeric_score:
  "VisualizationPreview sample_builtins (Some dated_summary) (createNumericPreset ''score'' st) =
     Inr None"
  by (simp add: VisualizationPreview_def createNumericPreset_def first_field_def numeric_chart_def
      numeric_data_def numeric_value_def dated_fields enumerate_eq_zip
      upt_rec)

lemma dated_categorical:
  "VisualizationPreview sample_builtins (Some dated_summary) (createCategoricalPreset [''city'']) =
     Inr (Some (PieOfCounts [(''Oslo'', 1), (''Rome'', 1)]))"
  by (simp add: VisualizationPreview_def createCategoricalPreset_def categorical_chart_def
      category_label_def dated_fields Let_def)

lemma dated_timeseries:
  "VisualizationPreview sample_builtins (Some dated_summary) (createTimeSeriesPreset ''ts'') =
     Inl TypeError"
  by (simp add: VisualizationPreview_def createTimeSeriesPreset_def first_field_def
      timeseries_chart_def ts_row_def parseDate_def dated_fields
      sample_builtins_def iso_days_samples date_is_number_def Let_def)

lemma render_presets_results:
  "render_presets env summ ps = Inr cs \<Longrightarrow>
     map (VisualizationPreview env summ) ps = map Inr cs"
  by (induction ps arbitrary: cs) (auto split: sum.splits)

lemma render_presets_throws:
  "(\<exists>e. render_presets env summ ps = Inl e) \<longleftrightarrow>
     (\<exists>p \<in> set ps. \<exists>e. VisualizationPreview env summ p = Inl e)"
  by (induction ps) (auto split: sum.splits)

lemma numeric_preview_insufficient:
  "length (numeric_data env fld (sample_records s)) < 2 \<Longrightarrow>
     VisualizationPreview env (Some s) (createNumericPreset fld st) = Inr None"
  by (simp add: VisualizationPreview_def createNumericPreset_def first_field_def numeric_chart_def)

text \<open>
  C5 does not hold of the code. In this summary every sample record has a numeric
  property named \<open>date\<close> beside the timestamp \<open>ts\<close>, and the column \<open>score\<close> is null
  throughout. The presets recommended are a numeric one on \<open>date\<close>, a numeric one on
  \<open>score\<close>, a categorical one and a time-series one. On its own the preset on \<open>score\<close>
  has too little data and yields no chart, and the presets on \<open>date\<close> and on \<open>city\<close>
  yield their charts; but the time-series preview throws a \<open>TypeError\<close> in its sort, and
  the list of previews renders nothing.
\<close>

theorem render_presets_aborts:
  "recommendPresets sample_builtins (Some dated_summary) =
     [createNumericPreset ''date''
        \<lparr>mean = Some (Fin (40480203 / 2)), minimum = Some (Fin 20240101),
         maximum = Some (Fin 20240102)\<rparr>,
      createNumericPreset ''score'' \<lparr>mean = None, minimum = None, maximum = None\<rparr>,
      createCategoricalPreset [''city''],
      createTimeSeriesPreset ''ts''] \<and>
   VisualizationPreview sample_builtins (Some dated_summary)
     (createNumericPreset ''score'' \<lparr>mean = None, minimum = None, maximum = None\<rparr>) = Inr None \<and>
   VisualizationPreview sample_builtins (Some dated_summary)
     (createNumericPreset ''date''
        \<lparr>mean = Some (Fin (40480203 / 2)), minimum = Some (Fin 20240101),
         maximum = Some (Fin 20240102)\<rparr>) =
     Inr (Some (LineOfValues [(0, Fin 20240101), (1, Fin 20240102)])) \<and>
   VisualizationPreview sample_builtins (Some dated_summary) (createCategoricalPreset [''city'']) =
     Inr (Some (PieOfCounts [(''Oslo'', 1), (''Rome'', 1)])) \<and>
   VisualizationPreview sample_builtins (Some dated_summary) (createTimeSeriesPreset ''ts'') =
     Inl TypeError \<and>
   render_presets sample_builtins (Some dated_summary)
     (recommendPresets sample_builtins (Some dated_summary)) = Inl TypeError"
  by (simp add: dated_presets dated_numeric_date dated_numeric_score dated_categorical
      dated_timeseries)

end
